theory Spec2Isabelle
  imports Complex_Main "HOL-Library.AList"
begin

section \<open>Python values used by the two webhook programs\<close>

text \<open>
  Chat identifiers are Python integers, hence unbounded: \<open>int\<close>. A Python \<open>str\<close> is a
  sequence of Unicode code points: a list of natural numbers. \<open>ascii\<close> writes a literal of
  the source as such a list.
  The interpreter's optional limit on the number of digits converted between \<open>int\<close> and
  \<open>str\<close> is a setting of the interpreter, not of the program, and is not modelled.
\<close>

type_synonym str = "nat list"

definition ascii :: "string \<Rightarrow> str" where
  "ascii s = map of_char s"

text \<open>The exceptions the modelled statements can raise; each is a subclass of \<open>Exception\<close>.\<close>

datatype py_error =
    ValueError
  | TypeError
  | OverflowError
  | AttributeError
  | OSError
  | JSONDecodeError
  | UnicodeDecodeError

text \<open>\<open>str(n)\<close> for an integer: decimal digits, most significant first, \<open>-\<close> (code point
  45) in front of a negative number.\<close>

definition digit_char :: "nat \<Rightarrow> nat" where
  "digit_char d = 48 + d"

function str_nat :: "nat \<Rightarrow> str" where
  "str_nat n = (if n < 10 then [digit_char n] else str_nat (n div 10) @ [digit_char (n mod 10)])"
  by pat_completeness auto
termination
  by (relation "measure id") auto

declare str_nat.simps [simp del]

definition py_str :: "int \<Rightarrow> str" where
  "py_str i = (if i < 0 then 45 # str_nat (nat (- i)) else str_nat (nat i))"

text \<open>
  \<open>int(s)\<close> for a string, base ten, as CPython computes it. First every code point from
  127 on is replaced: a Unicode white space by a blank, a Unicode decimal digit by the
  ASCII digit of its value; any other one makes the conversion fail. Code points below 127
  stay. Which code points are white space and which are decimal digits is a table of the
  interpreter's Unicode database, not of the program: the functions take it as \<open>db\<close>.
\<close>

record unicode_db =
  uni_space :: "nat \<Rightarrow> bool"
  uni_decimal :: "nat \<Rightarrow> nat option"

definition to_ascii :: "unicode_db \<Rightarrow> nat \<Rightarrow> nat option" where
  "to_ascii db c =
     (if c < 127 then Some c
      else if uni_space db c then Some 32
      else (case uni_decimal db c of
              None \<Rightarrow> None
            | Some d \<Rightarrow> if d < 10 then Some (48 + d) else None))"

text \<open>
  Then the ASCII text is read: the white space of C (\<open>Py_ISSPACE\<close>: tab, line feed,
  vertical tab, form feed, carriage return, blank) around the literal is dropped, one sign
  may lead, and the digits may be grouped by single underscores between digits. Anything
  else raises \<open>ValueError\<close>.
\<close>

definition is_space :: "nat \<Rightarrow> bool" where
  "is_space c = (c \<in> set [9, 10, 11, 12, 13, 32])"

definition is_digit :: "nat \<Rightarrow> bool" where
  "is_digit c = (48 \<le> c \<and> c \<le> 57)"

definition digit_val :: "nat \<Rightarrow> nat" where
  "digit_val c = c - 48"

definition strip :: "str \<Rightarrow> str" where
  "strip s = rev (dropWhile is_space (rev (dropWhile is_space s)))"

fun digits_ok :: "bool \<Rightarrow> str \<Rightarrow> bool" where
  "digits_ok prev [] = prev"
| "digits_ok prev (c # cs) =
     (if is_digit c then digits_ok True cs
      else if c = 95 \<and> prev then digits_ok False cs
      else False)"

definition digits_value :: "str \<Rightarrow> nat" where
  "digits_value s = foldl (\<lambda>acc c. 10 * acc + digit_val c) 0 (filter is_digit s)"

text \<open>The signs are the code points 45 (\<open>-\<close>) and 43 (\<open>+\<close>), the underscore is 95.\<close>

definition long_from_string :: "str \<Rightarrow> py_error + int" where
  "long_from_string s =
     (let t = strip s;
          neg = (case t of c # cs \<Rightarrow> c = 45 | [] \<Rightarrow> False);
          body = (case t of c # cs \<Rightarrow> if c = 45 \<or> c = 43 then cs else t | [] \<Rightarrow> [])
      in if digits_ok False body
         then Inr (if neg then - int (digits_value body) else int (digits_value body))
         else Inl ValueError)"

definition int_of_str :: "unicode_db \<Rightarrow> str \<Rightarrow> py_error + int" where
  "int_of_str db s =
     (case those (map (to_ascii db) s) of
        None \<Rightarrow> Inl ValueError
      | Some t \<Rightarrow> long_from_string t)"

text \<open>
  The table of Unicode 14.0, which CPython 3.11 ships: the white space from code point 127
  on, and the first code point of every run of ten decimal digits from there on. It is
  used where a statement needs one table; no general statement depends on it.
\<close>

definition unicode_spaces :: "nat list" where
  "unicode_spaces =
     [133, 160, 5760, 8192, 8193, 8194, 8195, 8196, 8197, 8198, 8199, 8200, 8201, 8202,
      8232, 8233, 8239, 8287, 12288]"

definition unicode_digit_runs :: "nat list" where
  "unicode_digit_runs =
     [1632, 1776, 1984, 2406, 2534, 2662, 2790, 2918, 3046, 3174, 3302, 3430, 3558, 3664,
      3792, 3872, 4160, 4240, 6112, 6160, 6470, 6608, 6784, 6800, 6992, 7088, 7232, 7248,
      42528, 43216, 43264, 43472, 43504, 43600, 44016, 65296, 66720, 68912, 69734, 69872,
      69942, 70096, 70384, 70736, 70864, 71248, 71360, 71472, 71904, 72016, 72784, 73040,
      73120, 92768, 92864, 93008, 120782, 120792, 120802, 120812, 120822, 123200, 123632,
      125264, 130032]"

definition unicode_decimal :: "nat \<Rightarrow> nat option" where
  "unicode_decimal c =
     (case find (\<lambda>s. s \<le> c \<and> c < s + 10) unicode_digit_runs of
        None \<Rightarrow> None
      | Some s \<Rightarrow> Some (c - s))"

definition unicode_14 :: unicode_db where
  "unicode_14 = \<lparr>uni_space = (\<lambda>c. c \<in> set unicode_spaces), uni_decimal = unicode_decimal\<rparr>"

text \<open>
  A Python \<open>float\<close> is a rational number, an infinity or a NaN; \<open>int(x)\<close> truncates
  the first towards zero and raises on the others.
\<close>

datatype pyfloat = Finite rat | PosInf | NegInf | NaN

text \<open>What \<open>json.load\<close> returns. An object is the Python \<open>dict\<close> built from it, its
  items in the order of the document.\<close>

datatype json =
    JNull
  | JBool bool
  | JInt int
  | JFloat pyfloat
  | JStr str
  | JArr "json list"
  | JObj "(str \<times> json) list"

fun py_int :: "unicode_db \<Rightarrow> json \<Rightarrow> py_error + int" where
  "py_int db (JInt i) = Inr i"
| "py_int db (JBool b) = Inr (if b then 1 else 0)"
| "py_int db (JStr s) = int_of_str db s"
| "py_int db (JFloat (Finite q)) = Inr (if 0 \<le> q then \<lfloor>q\<rfloor> else \<lceil>q\<rceil>)"
| "py_int db (JFloat NaN) = Inl ValueError"
| "py_int db (JFloat PosInf) = Inl OverflowError"
| "py_int db (JFloat NegInf) = Inl OverflowError"
| "py_int db JNull = Inl TypeError"
| "py_int db (JArr xs) = Inl TypeError"
| "py_int db (JObj kvs) = Inl TypeError"

text \<open>\<open>x.items()\<close>: only a \<open>dict\<close> has the method.\<close>

fun items :: "json \<Rightarrow> py_error + (str \<times> json) list" where
  "items (JObj kvs) = Inr kvs"
| "items j = Inl AttributeError"

section \<open>The dictionary of pairs\<close>

text \<open>
  \<open>_pairs: Dict[str, int]\<close> maps \<open>str(chat_id)\<close> to the partner's id. A Python \<open>dict\<close>
  keeps one entry per key, in insertion order: an association list, where assigning to a
  key that is present replaces the value in place and a new key goes to the end.
\<close>

type_synonym pairs_dict = "(str \<times> int) list"

definition dict_get :: "('k \<times> 'v) list \<Rightarrow> 'k \<Rightarrow> 'v option" where
  "dict_get d k = map_of d k"

definition dict_set :: "('k \<times> 'v) list \<Rightarrow> 'k \<Rightarrow> 'v \<Rightarrow> ('k \<times> 'v) list" where
  "dict_set d k v = AList.update k v d"

text \<open>\<open>d.pop(k, None)\<close>: the value removed (or \<open>None\<close>) and the dictionary left.\<close>

definition dict_pop :: "('k \<times> 'v) list \<Rightarrow> 'k \<Rightarrow> 'v option \<times> ('k \<times> 'v) list" where
  "dict_pop d k = (map_of d k, AList.delete k d)"

section \<open>The pairing store of \<open>forward_pair_webhook.py\<close>\<close>

text \<open>
  The state the storage functions work on: the global \<open>_pairs\<close>, and the file at
  \<open>PAIRS_FILE\<close>. The file is either absent, or present; a present file is described
  by what opening it and \<open>json.load\<close> give, an exception or the parsed document.
  \<open>saves\<close> counts the calls of \<open>save_pairs\<close>; it is not a variable of the program, and
  makes every call of a mutating storage function visible in the state.

  The handlers run one at a time here. The program runs them on one asyncio event loop,
  where a handler gives up control only at an \<open>await\<close>; the assignments of \<open>set_pair\<close>
  and the removals of \<open>unlink\<close> have no \<open>await\<close> between them.
\<close>

datatype pairs_file = Absent | Present "py_error + json"

record world =
  pairs :: pairs_dict
  disk :: pairs_file
  saves :: nat

text \<open>The document \<open>json.dump(_pairs, f)\<close> writes, as \<open>json.load\<close> reads it.\<close>

definition dump :: "pairs_dict \<Rightarrow> json" where
  "dump d = JObj (map (\<lambda>(k, v). (k, JInt v)) d)"

text \<open>The dict comprehension \<open>{k: int(v) for k, v in ....items()}\<close>: the first \<open>int(v)\<close>
  that raises ends it.\<close>

fun comprehension :: "unicode_db \<Rightarrow> (str \<times> json) list \<Rightarrow> pairs_dict \<Rightarrow> py_error + pairs_dict" where
  "comprehension db [] d = Inr d"
| "comprehension db ((k, v) # kvs) d =
     (case py_int db v of
        Inl e \<Rightarrow> Inl e
      | Inr i \<Rightarrow> comprehension db kvs (dict_set d k i))"

text \<open>The body of the \<open>try\<close> of \<open>load_pairs\<close>: the value assigned to \<open>_pairs\<close>, or the
  exception raised.\<close>

definition load_pairs_try :: "unicode_db \<Rightarrow> py_error + json \<Rightarrow> py_error + pairs_dict" where
  "load_pairs_try db r =
     (case r of
        Inl e \<Rightarrow> Inl e
      | Inr j \<Rightarrow> (case items j of
                    Inl e \<Rightarrow> Inl e
                  | Inr kvs \<Rightarrow> comprehension db kvs []))"

text \<open>\<open>load_pairs\<close>: \<open>except Exception\<close> catches every exception of the body (and logs
  it).\<close>

definition load_pairs :: "unicode_db \<Rightarrow> world \<Rightarrow> world" where
  "load_pairs db w =
     (case disk w of
        Absent \<Rightarrow> w\<lparr>pairs := []\<rparr>
      | Present r \<Rightarrow> (case load_pairs_try db r of
                       Inr d \<Rightarrow> w\<lparr>pairs := d\<rparr>
                     | Inl e \<Rightarrow> w\<lparr>pairs := []\<rparr>))"

text \<open>
  \<open>save_pairs\<close> either writes the file or fails (\<open>_ensure_dir\<close>, \<open>open\<close> or the write
  raises); the exception is caught and logged. Which of the two happens, and what the
  path holds after a failure, is the environment's choice.
\<close>

datatype save_io = Saved | SaveFailed pairs_file

definition save_pairs :: "save_io \<Rightarrow> world \<Rightarrow> world" where
  "save_pairs io w =
     (case io of
        Saved \<Rightarrow> w\<lparr>disk := Present (Inr (dump (pairs w))), saves := Suc (saves w)\<rparr>
      | SaveFailed f \<Rightarrow> w\<lparr>disk := f, saves := Suc (saves w)\<rparr>)"

definition get_partner :: "int \<Rightarrow> world \<Rightarrow> int option" where
  "get_partner chat_id w = dict_get (pairs w) (py_str chat_id)"

definition set_pair :: "save_io \<Rightarrow> int \<Rightarrow> int \<Rightarrow> world \<Rightarrow> world" where
  "set_pair io a b w =
     save_pairs io (w\<lparr>pairs := dict_set (dict_set (pairs w) (py_str a) b) (py_str b) a\<rparr>)"

definition unlink :: "save_io \<Rightarrow> int \<Rightarrow> world \<Rightarrow> int option \<times> world" where
  "unlink io a w =
     (let (b, d1) = dict_pop (pairs w) (py_str a);
          d2 = (case b of
                  Some b' \<Rightarrow> snd (dict_pop d1 (py_str b'))
                | None \<Rightarrow> d1)
      in (b, save_pairs io (w\<lparr>pairs := d2\<rparr>)))"

text \<open>The state at import: \<open>_pairs = {}\<close>, nothing saved yet.\<close>

definition initial :: "pairs_file \<Rightarrow> world" where
  "initial f = \<lparr>pairs = [], disk = f, saves = 0\<rparr>"

section \<open>The handlers of \<open>forward_pair_webhook.py\<close>\<close>

text \<open>
  What a handler reads of an update: \<open>update.effective_chat\<close> with its \<open>id\<close> and \<open>type\<close>,
  \<open>update.effective_message\<close> with its \<open>message_id\<close> and \<open>from_user\<close>, and
  \<open>update.message\<close>. The last is \<open>None\<close> when the update carries an edited message
  (the webhook asks for \<open>edited_message\<close> updates, and the command handlers take them);
  \<open>effective_message\<close> is the edited message then.
\<close>

record user =
  is_bot :: bool

record chat =
  chat_id :: int
  chat_type :: str

record message =
  message_id :: int
  from_user :: "user option"

record update =
  effective_chat :: chat
  effective_message :: message
  message :: "message option"

text \<open>
  The texts the handlers send, by the place of the literal in the source:
  \<open>AskForId\<close> (\<open>link_cmd\<close>, no argument), \<open>IdMustBeNumber\<close> (\<open>link_cmd\<close>, \<open>ValueError\<close>),
  \<open>CannotLinkSelf\<close> (\<open>link_cmd\<close>, the argument is the caller's id), \<open>LinkedNotice cid\<close>
  (sent to the new partner), \<open>LinkDone other\<close> (the confirmation), and the greeting of
  \<open>forward_bot_webhook.py\<close> with the target and the source it reports.
\<close>

datatype wording =
    AskForId
  | IdMustBeNumber
  | CannotLinkSelf
  | LinkedNotice int
  | LinkDone int
  | ForwardGreeting int "int option"

text \<open>
  The calls of the bot API a handler makes, in order. A call may fail. \<open>link_cmd\<close>
  swallows a failure of \<open>send_message\<close> and \<open>relay_messages\<close> logs and swallows a
  failure of \<open>copy_message\<close>; every other call is the last statement of its handler. So
  a failure changes neither the calls made nor the state, and is not modelled.
  \<open>CopyMessage\<close> carries \<open>chat_id\<close> (the destination), \<open>from_chat_id\<close> and \<open>message_id\<close>,
  in this order.
\<close>

datatype call =
    ReplyText wording
  | ReplyHtml wording
  | SendMessage int wording
  | CopyMessage int int int

text \<open>
  What running a handler that works on the store leaves: the state, the calls made, and
  the exception that ended it, if one did.
\<close>

record outcome =
  state :: world
  calls :: "call list"
  raised :: "py_error option"

text \<open>
  \<open>await update.message.reply_text(...)\<close> (or \<open>reply_html\<close>) as the last statement of a
  handler that has made the calls \<open>made\<close>: with \<open>update.message\<close> being \<open>None\<close> the
  attribute access raises \<open>AttributeError\<close> and nothing is sent.
\<close>

definition reply :: "update \<Rightarrow> call \<Rightarrow> world \<Rightarrow> call list \<Rightarrow> outcome" where
  "reply u c w made =
     (case message u of
        None \<Rightarrow> \<lparr>state = w, calls = made, raised = Some AttributeError\<rparr>
      | Some m \<Rightarrow> \<lparr>state = w, calls = made @ [c], raised = None\<rparr>)"

text \<open>\<open>link_cmd\<close>, with \<open>context.args\<close> as the list \<open>args\<close>. \<open>except ValueError\<close> catches
  that exception only.\<close>

definition link_cmd :: "unicode_db \<Rightarrow> save_io \<Rightarrow> update \<Rightarrow> str list \<Rightarrow> world \<Rightarrow> outcome" where
  "link_cmd db io u args w =
     (let cid = chat_id (effective_chat u) in
      case args of
        [] \<Rightarrow> reply u (ReplyText AskForId) w []
      | arg # rest \<Rightarrow>
          (case int_of_str db arg of
             Inl e \<Rightarrow>
               if e = ValueError then reply u (ReplyText IdMustBeNumber) w []
               else \<lparr>state = w, calls = [], raised = Some e\<rparr>
           | Inr other \<Rightarrow>
               if other = cid then reply u (ReplyText CannotLinkSelf) w []
               else reply u (ReplyHtml (LinkDone other)) (set_pair io cid other w)
                      [SendMessage other (LinkedNotice cid)]))"

text \<open>Python's truth value of an \<open>Optional[int]\<close>: \<open>None\<close> and \<open>0\<close> are false.\<close>

fun truthy :: "int option \<Rightarrow> bool" where
  "truthy None = False"
| "truthy (Some i) = (i \<noteq> 0)"

text \<open>\<open>msg.from_user and msg.from_user.is_bot\<close>\<close>

fun from_bot :: "user option \<Rightarrow> bool" where
  "from_bot None = False"
| "from_bot (Some usr) = is_bot usr"

definition relay_messages :: "update \<Rightarrow> world \<Rightarrow> call list" where
  "relay_messages u w =
     (let msg = effective_message u;
          chat = effective_chat u
      in if chat_type chat \<noteq> ascii ''private'' then []
         else if from_bot (from_user msg) then []
         else let partner = get_partner (chat_id chat) w
              in if \<not> truthy partner then []
                 else (case partner of
                         None \<Rightarrow> []
                       | Some p \<Rightarrow> [CopyMessage p (chat_id chat) (message_id msg)]))"

section \<open>\<open>forward_bot_webhook.py\<close>\<close>

text \<open>
  The settings read at import. \<open>SOURCE_CHAT_ID\<close> is \<open>None\<close> when the variable is unset
  or empty. The module exits at import unless \<open>TARGET_CHAT_ID\<close> is true, that is, not 0.
\<close>

record config =
  TARGET_CHAT_ID :: int
  SOURCE_CHAT_ID :: "int option"

text \<open>\<open>int(os.getenv("SOURCE_CHAT_ID")) if os.getenv("SOURCE_CHAT_ID") else None\<close>, from the
  value of the environment variable (\<open>None\<close> when it is unset).\<close>

definition read_source_chat_id :: "unicode_db \<Rightarrow> str option \<Rightarrow> py_error + int option" where
  "read_source_chat_id db env =
     (case env of
        None \<Rightarrow> Inr None
      | Some s \<Rightarrow> if s = [] then Inr None
                  else (case int_of_str db s of Inl e \<Rightarrow> Inl e | Inr i \<Rightarrow> Inr (Some i)))"

definition config_ok :: "config \<Rightarrow> bool" where
  "config_ok cfg = (TARGET_CHAT_ID cfg \<noteq> 0)"

text \<open>\<open>start_cmd\<close> reports the source as restricted exactly when \<open>SOURCE_CHAT_ID\<close> is
  true, and as "any" otherwise. It replies through \<open>update.message\<close>.\<close>

definition start_cmd :: "config \<Rightarrow> update \<Rightarrow> py_error + call list" where
  "start_cmd cfg u =
     (case message u of
        None \<Rightarrow> Inl AttributeError
      | Some m \<Rightarrow>
          Inr [ReplyText (ForwardGreeting (TARGET_CHAT_ID cfg)
                 (if truthy (SOURCE_CHAT_ID cfg) then SOURCE_CHAT_ID cfg else None))])"

definition forward_all :: "config \<Rightarrow> update \<Rightarrow> call list" where
  "forward_all cfg u =
     (let msg = effective_message u;
          chat = effective_chat u
      in if truthy (SOURCE_CHAT_ID cfg) \<and> Some (chat_id chat) \<noteq> SOURCE_CHAT_ID cfg then []
         else if chat_id chat = TARGET_CHAT_ID cfg then []
         else [CopyMessage (TARGET_CHAT_ID cfg) (chat_id chat) (message_id msg)])"

section \<open>Conversions: basic facts\<close>

lemma digit_char_is_digit: "d < 10 \<Longrightarrow> is_digit (digit_char d)"
  by (simp add: is_digit_def digit_char_def)

lemma digit_char_val: "digit_val (digit_char d) = d"
  by (simp add: digit_val_def digit_char_def)

lemma digit_not_space: "is_digit c \<Longrightarrow> \<not> is_space c"
  by (auto simp: is_digit_def is_space_def)

lemma str_nat_small: "n < 10 \<Longrightarrow> str_nat n = [digit_char n]"
  by (subst str_nat.simps) simp

lemma str_nat_big: "\<not> n < 10 \<Longrightarrow> str_nat n = str_nat (n div 10) @ [digit_char (n mod 10)]"
  by (subst str_nat.simps) simp

lemma str_nat_digits: "c \<in> set (str_nat n) \<Longrightarrow> is_digit c"
proof (induction n arbitrary: c rule: str_nat.induct)
  case (1 n)
  show ?case
  proof (cases "n < 10")
    case True
    with "1.prems" show ?thesis
      by (simp add: str_nat_small digit_char_is_digit)
  next
    case False
    with "1.prems" "1.IH" show ?thesis
      by (auto simp: str_nat_big digit_char_is_digit)
  qed
qed

lemma str_nat_nonempty: "str_nat n \<noteq> []"
  by (cases "n < 10") (simp_all add: str_nat_small str_nat_big)

lemma digits_ok_all_digits:
  "(\<And>c. c \<in> set s \<Longrightarrow> is_digit c) \<Longrightarrow> digits_ok p s = (p \<or> s \<noteq> [])"
  by (induction s arbitrary: p) auto

lemma digits_value_snoc:
  "is_digit d \<Longrightarrow> digits_value (s @ [d]) = 10 * digits_value s + digit_val d"
  by (simp add: digits_value_def)

lemma digits_value_str_nat: "digits_value (str_nat n) = n"
proof (induction n rule: str_nat.induct)
  case (1 n)
  show ?case
  proof (cases "n < 10")
    case True
    then show ?thesis
      by (simp add: str_nat_small digits_value_def digit_char_is_digit digit_char_val)
  next
    case False
    then have "digits_value (str_nat n) = 10 * digits_value (str_nat (n div 10)) + n mod 10"
      by (simp add: str_nat_big digits_value_snoc digit_char_is_digit digit_char_val)
    with False "1.IH" show ?thesis
      by simp
  qed
qed

lemma strip_id:
  assumes "s \<noteq> []" and "\<not> is_space (hd s)" and "\<not> is_space (last s)"
  shows "strip s = s"
proof -
  from assms have "dropWhile is_space s = s"
    by (cases s) auto
  moreover from assms have "dropWhile is_space (rev s) = rev s"
    by (cases "rev s") (auto simp: last_rev hd_rev)
  ultimately show ?thesis
    by (simp add: strip_def)
qed

lemma hd_str_nat_digit: "is_digit (hd (str_nat n))"
  using str_nat_nonempty [of n] by (intro str_nat_digits [of _ n]) simp

lemma last_str_nat_digit: "is_digit (last (str_nat n))"
  using str_nat_nonempty [of n] by (intro str_nat_digits [of _ n]) simp

lemma strip_str_nat: "strip (str_nat n) = str_nat n"
  by (rule strip_id)
     (simp_all add: str_nat_nonempty digit_not_space hd_str_nat_digit last_str_nat_digit)

lemma strip_minus_str_nat: "strip (45 # str_nat n) = 45 # str_nat n"
proof (rule strip_id)
  show "45 # str_nat n \<noteq> []" by simp
  show "\<not> is_space (hd (45 # str_nat n))" by (simp add: is_space_def)
  show "\<not> is_space (last (45 # str_nat n))"
    by (simp add: str_nat_nonempty digit_not_space last_str_nat_digit)
qed

lemma digits_ok_str_nat: "digits_ok False (str_nat n)"
  using digits_ok_all_digits [of "str_nat n" False] str_nat_digits [of _ n] str_nat_nonempty [of n]
  by blast

lemma long_from_string_str_nat: "long_from_string (str_nat n) = Inr (int n)"
proof -
  obtain c cs where s: "str_nat n = c # cs"
    using str_nat_nonempty [of n] by (cases "str_nat n") auto
  have "is_digit c"
    using hd_str_nat_digit [of n] by (simp add: s)
  then have c: "c \<noteq> 45" "c \<noteq> 43"
    by (auto simp: is_digit_def)
  have "long_from_string (c # cs) = Inr (int (digits_value (c # cs)))"
    using c digits_ok_str_nat [of n] strip_str_nat [of n]
    unfolding s long_from_string_def by (simp add: Let_def)
  then show ?thesis
    using digits_value_str_nat [of n] by (simp add: s)
qed

lemma long_from_string_minus_str_nat: "long_from_string (45 # str_nat n) = Inr (- int n)"
  using digits_ok_str_nat [of n]
  by (simp add: long_from_string_def strip_minus_str_nat digits_value_str_nat)

lemma long_from_string_py_str: "long_from_string (py_str i) = Inr i"
  by (simp add: py_str_def long_from_string_str_nat long_from_string_minus_str_nat)

text \<open>A string of code points below 127 is read as it is, whatever the table.\<close>

lemma those_to_ascii: "(\<And>c. c \<in> set s \<Longrightarrow> c < 127) \<Longrightarrow> those (map (to_ascii db) s) = Some s"
  by (induction s) (simp_all add: to_ascii_def)

lemma int_of_str_below_127:
  "(\<And>c. c \<in> set s \<Longrightarrow> c < 127) \<Longrightarrow> int_of_str db s = long_from_string s"
  by (simp add: int_of_str_def those_to_ascii)

lemma str_nat_below_127: "c \<in> set (str_nat n) \<Longrightarrow> c < 127"
  using str_nat_digits [of c n] by (simp add: is_digit_def)

lemma py_str_below_127: "c \<in> set (py_str i) \<Longrightarrow> c < 127"
  by (auto simp: py_str_def dest: str_nat_below_127 split: if_splits)

lemma int_of_str_py_str: "int_of_str db (py_str i) = Inr i"
  by (simp add: int_of_str_below_127 py_str_below_127 long_from_string_py_str)

lemma py_str_inj: "py_str a = py_str b \<longleftrightarrow> a = b"
proof
  assume "py_str a = py_str b"
  then have "long_from_string (py_str a) = long_from_string (py_str b)"
    by simp
  then show "a = b"
    by (simp add: long_from_string_py_str)
qed simp

lemma long_from_string_error: "long_from_string s = Inl e \<Longrightarrow> e = ValueError"
  by (auto simp: long_from_string_def Let_def split: if_splits)

lemma int_of_str_error: "int_of_str db s = Inl e \<Longrightarrow> e = ValueError"
  by (auto simp: int_of_str_def dest: long_from_string_error split: option.splits)

lemma py_str_100: "py_str 100 = ascii ''100''"
  by code_simp

lemma py_str_200: "py_str 200 = ascii ''200''"
  by code_simp

lemma int_of_str_100: "int_of_str db (ascii ''100'') = Inr 100"
  using int_of_str_py_str [of db 100] by (simp add: py_str_100)

lemma int_of_str_0: "int_of_str db (ascii ''0'') = Inr 0"
proof -
  have "py_str 0 = ascii ''0''"
    by code_simp
  then show ?thesis
    using int_of_str_py_str [of db 0] by simp
qed

lemma int_of_str_abc: "int_of_str db (ascii ''abc'') = Inl ValueError"
  by (simp add: int_of_str_def ascii_def to_ascii_def long_from_string_def strip_def
      is_space_def is_digit_def)

text \<open>The separator U+001C is white space for \<open>str.isspace\<close>, not for \<open>int()\<close>.\<close>

lemma int_of_str_separator: "int_of_str db [28, 50, 48, 48] = Inl ValueError"
  by (simp add: int_of_str_def to_ascii_def long_from_string_def strip_def
      is_space_def is_digit_def)

section \<open>The store: lookups after each operation\<close>

lemma pairs_save_pairs: "pairs (save_pairs io w) = pairs w"
  by (cases io) (simp_all add: save_pairs_def)

lemma lookup_set_pair:
  "dict_get (pairs (set_pair io a b w)) k =
     (if k = py_str b then Some a else if k = py_str a then Some b else dict_get (pairs w) k)"
  by (simp add: set_pair_def pairs_save_pairs dict_get_def dict_set_def update_conv')

lemma get_partner_set_pair:
  "get_partner x (set_pair io a b w) =
     (if x = b then Some a else if x = a then Some b else get_partner x w)"
  by (simp add: get_partner_def lookup_set_pair py_str_inj)

lemma fst_unlink: "fst (unlink io a w) = get_partner a w"
  by (simp add: unlink_def dict_pop_def get_partner_def dict_get_def)

lemma lookup_unlink:
  "dict_get (pairs (snd (unlink io a w))) k =
     (if k = py_str a then None
      else case get_partner a w of
             None \<Rightarrow> dict_get (pairs w) k
           | Some b \<Rightarrow> if k = py_str b then None else dict_get (pairs w) k)"
  by (simp add: unlink_def dict_pop_def get_partner_def dict_get_def pairs_save_pairs
      delete_conv' split: option.split)

lemma get_partner_unlink:
  "get_partner x (snd (unlink io a w)) =
     (if x = a then None
      else case get_partner a w of
             None \<Rightarrow> get_partner x w
           | Some b \<Rightarrow> if x = b then None else get_partner x w)"
  by (simp add: get_partner_def [of x] lookup_unlink py_str_inj split: option.split)

lemma pairs_unlink_unpaired:
  assumes "get_partner a w = None"
  shows "pairs (snd (unlink io a w)) = pairs w"
proof -
  from assms have "py_str a \<notin> fst ` set (pairs w)"
    by (simp add: get_partner_def dict_get_def map_of_eq_None_iff)
  with assms show ?thesis
    by (simp add: unlink_def dict_pop_def get_partner_def dict_get_def pairs_save_pairs)
qed

text \<open>\<open>unlink\<close> removes entries and does nothing else to the dictionary: what is left is
  the entries under the other keys, in their order.\<close>

lemma pairs_unlink:
  "pairs (snd (unlink io a w)) =
     filter (\<lambda>kv. fst kv \<noteq> py_str a \<and> (\<forall>b. get_partner a w = Some b \<longrightarrow> fst kv \<noteq> py_str b))
       (pairs w)"
proof (cases "get_partner a w")
  case None
  then have "py_str a \<notin> fst ` set (pairs w)"
    by (simp add: get_partner_def dict_get_def map_of_eq_None_iff)
  then have "filter (\<lambda>kv. fst kv \<noteq> py_str a) (pairs w) = pairs w"
    by (force simp: filter_id_conv)
  with None show ?thesis
    by (simp add: pairs_unlink_unpaired)
next
  case (Some b)
  then show ?thesis
    by (auto simp: unlink_def dict_pop_def get_partner_def dict_get_def pairs_save_pairs
        AList.delete_eq case_prod_beta intro!: filter_cong)
qed

lemma get_partner_initial: "get_partner x (initial f) = None"
  by (simp add: get_partner_def initial_def dict_get_def)

lemma saves_set_pair: "saves (set_pair io a b w) = Suc (saves w)"
  by (cases io) (simp_all add: set_pair_def save_pairs_def)

lemma get_partner_set_pair_other:
  "c \<noteq> a \<Longrightarrow> c \<noteq> b \<Longrightarrow> get_partner c (set_pair io a b w) = get_partner c w"
  by (simp add: get_partner_set_pair)

lemma set_pair_visible: "set_pair io a b w \<noteq> w"
proof
  assume "set_pair io a b w = w"
  then have "saves (set_pair io a b w) = saves w"
    by simp
  then show False
    by (simp add: saves_set_pair)
qed

text \<open>A dictionary with one entry per key keeps that form under every operation of the
  store, and \<open>load_pairs\<close> builds one.\<close>

lemma distinct_set_pair:
  "distinct (map fst (pairs w)) \<Longrightarrow> distinct (map fst (pairs (set_pair io a b w)))"
  by (simp add: set_pair_def pairs_save_pairs dict_set_def distinct_update)

lemma distinct_unlink:
  "distinct (map fst (pairs w)) \<Longrightarrow> distinct (map fst (pairs (snd (unlink io a w))))"
  by (simp add: unlink_def dict_pop_def pairs_save_pairs distinct_delete split: option.split)

lemma distinct_comprehension:
  "distinct (map fst d) \<Longrightarrow> comprehension db kvs d = Inr d' \<Longrightarrow> distinct (map fst d')"
proof (induction kvs arbitrary: d)
  case Nil
  then show ?case by simp
next
  case (Cons kv kvs)
  obtain k v where kv: "kv = (k, v)"
    by (cases kv)
  from Cons.prems(2) obtain i where i: "py_int db v = Inr i"
    and rest: "comprehension db kvs (dict_set d k i) = Inr d'"
    by (auto simp: kv split: sum.splits)
  from Cons.prems(1) have "distinct (map fst (dict_set d k i))"
    by (simp add: dict_set_def distinct_update)
  then show ?case
    using rest by (rule Cons.IH)
qed

lemma distinct_load_pairs: "distinct (map fst (pairs (load_pairs db w)))"
proof (cases "disk w")
  case Absent
  then show ?thesis
    by (simp add: load_pairs_def)
next
  case (Present r)
  show ?thesis
  proof (cases "load_pairs_try db r")
    case (Inl e)
    with Present show ?thesis
      by (simp add: load_pairs_def)
  next
    case (Inr d)
    then obtain kvs where "comprehension db kvs [] = Inr d"
      by (auto simp: load_pairs_try_def split: sum.splits)
    then have "distinct (map fst d)"
      using distinct_comprehension [of "[]" db kvs d] by simp
    with Present Inr show ?thesis
      by (simp add: load_pairs_def)
  qed
qed

section \<open>Loading: when the body of the \<open>try\<close> raises, and what it reads back\<close>

lemma comprehension_raises:
  "(k, v) \<in> set kvs \<Longrightarrow> py_int db v = Inl e \<Longrightarrow> \<exists>e'. comprehension db kvs d = Inl e'"
proof (induction kvs arbitrary: d)
  case Nil
  then show ?case by simp
next
  case (Cons kv kvs)
  obtain k' v' where kv: "kv = (k', v')"
    by (cases kv)
  show ?case
  proof (cases "py_int db v'")
    case (Inl e'')
    then show ?thesis
      by (simp add: kv)
  next
    case (Inr i)
    with Cons.prems have "(k, v) \<in> set kvs"
      by (auto simp: kv)
    then have "\<exists>e'. comprehension db kvs (dict_set d k' i) = Inl e'"
      using Cons.prems(2) by (rule Cons.IH)
    with Inr show ?thesis
      by (simp add: kv)
  qed
qed

lemma update_new_key: "k \<notin> fst ` set al \<Longrightarrow> AList.update k v al = al @ [(k, v)]"
  by (induction al) auto

lemma comprehension_dump:
  "distinct (map fst (acc @ d)) \<Longrightarrow>
     comprehension db (map (\<lambda>(k, v). (k, JInt v)) d) acc = Inr (acc @ d)"
proof (induction d arbitrary: acc)
  case Nil
  then show ?case by simp
next
  case (Cons kv d)
  obtain k v where kv: "kv = (k, v)"
    by (cases kv)
  from Cons.prems have new: "k \<notin> fst ` set acc"
    by (auto simp: kv)
  from Cons.prems have "distinct (map fst ((acc @ [(k, v)]) @ d))"
    by (simp add: kv)
  then have "comprehension db (map (\<lambda>(k, v). (k, JInt v)) d) (acc @ [(k, v)]) =
               Inr ((acc @ [(k, v)]) @ d)"
    by (rule Cons.IH)
  with new show ?case
    by (simp add: kv dict_set_def update_new_key)
qed

lemma load_pairs_try_dump:
  "distinct (map fst d) \<Longrightarrow> load_pairs_try db (Inr (dump d)) = Inr d"
  using comprehension_dump [of "[]" d db] by (simp add: load_pairs_try_def dump_def)

lemma load_pairs_disk: "disk (load_pairs db w) = disk w \<and> saves (load_pairs db w) = saves w"
  by (simp add: load_pairs_def split: pairs_file.split sum.split)

section \<open>\<open>link_cmd\<close>: the three rejections\<close>

lemma state_reply: "state (reply u c w made) = w"
  by (simp add: reply_def split: option.split)

lemma reply_message:
  "message u = Some m \<Longrightarrow> reply u c w made = \<lparr>state = w, calls = made @ [c], raised = None\<rparr>"
  by (simp add: reply_def)

lemma reply_no_message:
  "message u = None \<Longrightarrow> reply u c w made = \<lparr>state = w, calls = made, raised = Some AttributeError\<rparr>"
  by (simp add: reply_def)

lemma link_cmd_no_argument: "link_cmd db io u [] w = reply u (ReplyText AskForId) w []"
  by (simp add: link_cmd_def)

lemma link_cmd_not_a_number:
  "int_of_str db arg = Inl e \<Longrightarrow>
     link_cmd db io u (arg # rest) w = reply u (ReplyText IdMustBeNumber) w []"
  using int_of_str_error [of db arg e] by (simp add: link_cmd_def)

lemma link_cmd_own_id:
  "int_of_str db arg = Inr (chat_id (effective_chat u)) \<Longrightarrow>
     link_cmd db io u (arg # rest) w = reply u (ReplyText CannotLinkSelf) w []"
  by (simp add: link_cmd_def)

lemma link_cmd_links:
  "int_of_str db arg = Inr other \<Longrightarrow> other \<noteq> chat_id (effective_chat u) \<Longrightarrow>
     state (link_cmd db io u (arg # rest) w) = set_pair io (chat_id (effective_chat u)) other w"
  by (simp add: link_cmd_def Let_def state_reply)

text \<open>With \<open>SOURCE_CHAT_ID\<close> 0, \<open>start_cmd\<close> reports that any source is accepted.\<close>

lemma start_cmd_zero_source:
  "message u = Some m \<Longrightarrow>
     start_cmd \<lparr>TARGET_CHAT_ID = t, SOURCE_CHAT_ID = Some 0\<rparr> u =
       Inr [ReplyText (ForwardGreeting t None)]"
  by (simp add: start_cmd_def)

section \<open>The pairing store: the claims\<close>

text \<open>
  C1 (symmetry in every state reached from the empty store by \<open>set_pair a b\<close> with
  \<open>a \<noteq> b\<close> and \<open>unlink\<close>): the code breaks it. \<open>set_pair\<close> writes the two entries of
  the new pair and leaves the entry of a previous partner in place. From the empty store,
  \<open>set_pair 1 2\<close> and then \<open>set_pair 1 3\<close> give a store where 2 is still paired with 1
  while 1 is paired with 3.
\<close>

theorem relink_breaks_symmetry:
  "get_partner 2 (set_pair Saved 1 3 (set_pair Saved 1 2 (initial Absent))) = Some 1 \<and>
   get_partner 1 (set_pair Saved 1 3 (set_pair Saved 1 2 (initial Absent))) = Some 3"
  by (simp add: get_partner_set_pair)

text \<open>
  C2 (\<open>set_pair a b\<close> removes the reverse entry of the previous partner \<open>c\<close> of \<open>a\<close>):
  the code does not. With 1 and 2 paired, \<open>set_pair 1 3\<close> leaves the entry of 2, which
  still names 1.
\<close>

theorem relink_keeps_old_entry:
  "get_partner 1 (set_pair Saved 1 2 (initial Absent)) = Some 2 \<and>
   get_partner 2 (set_pair Saved 1 2 (initial Absent)) = Some 1 \<and>
   get_partner 2 (set_pair Saved 1 3 (set_pair Saved 1 2 (initial Absent))) = Some 1"
  by (simp add: get_partner_set_pair)

text \<open>
  C3: for \<open>a \<noteq> b\<close> and any state, whether or not the file could be written, right after
  \<open>set_pair a b\<close> the partner of \<open>a\<close> is \<open>b\<close> and the partner of \<open>b\<close> is \<open>a\<close>.
\<close>

theorem set_pair_links_both:
  "a \<noteq> b \<Longrightarrow>
     get_partner a (set_pair io a b w) = Some b \<and> get_partner b (set_pair io a b w) = Some a"
  by (simp add: get_partner_set_pair)

theorem set_pair_links_both_witness:
  "(100::int) \<noteq> 200 \<and>
   get_partner 100 (set_pair Saved 100 200 (initial Absent)) = Some 200 \<and>
   get_partner 200 (set_pair Saved 100 200 (initial Absent)) = Some 100"
  using set_pair_links_both [of 100 200 Saved "initial Absent"] by simp

text \<open>
  C4: \<open>unlink a\<close> returns the partner recorded for \<open>a\<close> (or \<open>None\<close>) and removes the
  entry of \<open>a\<close>; when a partner \<open>b\<close> was recorded, the entry of \<open>b\<close> is removed too.
  Nothing else is removed or changed: the dictionary afterwards is the one before without
  the entries under \<open>str(a)\<close> and, when there was a partner \<open>b\<close>, \<open>str(b)\<close>, the others
  in their order. When no partner was recorded, the dictionary is left as it was. A second
  \<open>unlink a\<close> right after returns \<open>None\<close> and leaves the dictionary as the first call
  left it.
\<close>

theorem unlink_postcondition:
  "fst (unlink io a w) = get_partner a w \<and>
   get_partner a (snd (unlink io a w)) = None \<and>
   (\<forall>b. get_partner a w = Some b \<longrightarrow> get_partner b (snd (unlink io a w)) = None) \<and>
   pairs (snd (unlink io a w)) =
     filter (\<lambda>kv. fst kv \<noteq> py_str a \<and> (\<forall>b. get_partner a w = Some b \<longrightarrow> fst kv \<noteq> py_str b))
       (pairs w) \<and>
   (\<forall>k. k \<noteq> py_str a \<and> (\<forall>b. get_partner a w = Some b \<longrightarrow> k \<noteq> py_str b) \<longrightarrow>
        dict_get (pairs (snd (unlink io a w))) k = dict_get (pairs w) k) \<and>
   (get_partner a w = None \<longrightarrow> pairs (snd (unlink io a w)) = pairs w) \<and>
   fst (unlink io' a (snd (unlink io a w))) = None \<and>
   pairs (snd (unlink io' a (snd (unlink io a w)))) = pairs (snd (unlink io a w))"
proof -
  let ?w' = "snd (unlink io a w)"
  have gone: "get_partner a ?w' = None"
    by (simp add: get_partner_unlink)
  have "\<forall>b. get_partner a w = Some b \<longrightarrow> get_partner b ?w' = None"
    by (simp add: get_partner_unlink)
  moreover have "pairs ?w' =
      filter (\<lambda>kv. fst kv \<noteq> py_str a \<and> (\<forall>b. get_partner a w = Some b \<longrightarrow> fst kv \<noteq> py_str b))
        (pairs w)"
    by (rule pairs_unlink)
  moreover have "\<forall>k. k \<noteq> py_str a \<and> (\<forall>b. get_partner a w = Some b \<longrightarrow> k \<noteq> py_str b) \<longrightarrow>
      dict_get (pairs ?w') k = dict_get (pairs w) k"
    by (simp add: lookup_unlink split: option.split)
  moreover have "get_partner a w = None \<longrightarrow> pairs ?w' = pairs w"
    by (simp add: pairs_unlink_unpaired)
  moreover have "fst (unlink io' a ?w') = None"
    by (simp add: fst_unlink gone)
  moreover have "pairs (snd (unlink io' a ?w')) = pairs ?w'"
    using gone by (rule pairs_unlink_unpaired)
  ultimately show ?thesis
    using gone fst_unlink [of io a w] by blast
qed

theorem unlink_postcondition_witness:
  "get_partner 100 (set_pair Saved 300 400 (set_pair Saved 100 200 (initial Absent))) = Some 200 \<and>
   fst (unlink Saved 100 (set_pair Saved 300 400 (set_pair Saved 100 200 (initial Absent)))) =
     Some 200 \<and>
   get_partner 100
     (snd (unlink Saved 100 (set_pair Saved 300 400 (set_pair Saved 100 200 (initial Absent))))) =
     None \<and>
   get_partner 200
     (snd (unlink Saved 100 (set_pair Saved 300 400 (set_pair Saved 100 200 (initial Absent))))) =
     None \<and>
   pairs (snd (unlink Saved 100 (set_pair Saved 300 400 (set_pair Saved 100 200 (initial Absent))))) =
     [(py_str 300, 400), (py_str 400, 300)] \<and>
   get_partner 7 (set_pair Saved 300 400 (set_pair Saved 100 200 (initial Absent))) = None \<and>
   fst (unlink Saved 7 (set_pair Saved 300 400 (set_pair Saved 100 200 (initial Absent)))) = None \<and>
   pairs (snd (unlink Saved 7 (set_pair Saved 300 400 (set_pair Saved 100 200 (initial Absent))))) =
     pairs (set_pair Saved 300 400 (set_pair Saved 100 200 (initial Absent)))"
proof -
  let ?w = "set_pair Saved 300 400 (set_pair Saved 100 200 (initial Absent))"
  have p: "get_partner 100 ?w = Some 200"
    by (simp add: get_partner_set_pair)
  have n: "get_partner 7 ?w = None"
    by (simp add: get_partner_set_pair get_partner_initial)
  have d: "pairs ?w = [(py_str 100, 200), (py_str 200, 100), (py_str 300, 400), (py_str 400, 300)]"
    by (simp add: set_pair_def initial_def pairs_save_pairs dict_set_def py_str_inj)
  note paired = unlink_postcondition [of Saved 100 ?w Saved]
  note unpaired = unlink_postcondition [of Saved 7 ?w Saved]
  have r: "fst (unlink Saved 100 ?w) = Some 200"
    using paired p by simp
  have ga: "get_partner 100 (snd (unlink Saved 100 ?w)) = None"
    using paired by blast
  have gb: "get_partner 200 (snd (unlink Saved 100 ?w)) = None"
    using paired p by blast
  have "pairs (snd (unlink Saved 100 ?w)) =
      filter (\<lambda>kv. fst kv \<noteq> py_str 100 \<and>
                (\<forall>b. get_partner 100 ?w = Some b \<longrightarrow> fst kv \<noteq> py_str b)) (pairs ?w)"
    using paired by blast
  then have rest: "pairs (snd (unlink Saved 100 ?w)) = [(py_str 300, 400), (py_str 400, 300)]"
    by (simp add: p d py_str_inj)
  have r': "fst (unlink Saved 7 ?w) = None"
    using unpaired n by simp
  have same: "pairs (snd (unlink Saved 7 ?w)) = pairs ?w"
    using unpaired n by blast
  from p r ga gb rest n r' same show ?thesis
    by blast
qed

text \<open>
  C9: the store does not check \<open>a \<noteq> b\<close>. \<open>set_pair a a\<close> goes through in any state and
  leaves \<open>a\<close> paired with itself. The check is in \<open>link_cmd\<close>: given an argument that
  denotes the caller's own id, it returns the state as it was, so \<open>set_pair\<close> was not
  called; when the update carries \<open>update.message\<close>, its only call is the reply with the
  rejection.
\<close>

theorem set_pair_self_unchecked:
  "get_partner a (set_pair io a a w) = Some a \<and>
   (int_of_str db arg = Inr (chat_id (effective_chat u)) \<longrightarrow>
      state (link_cmd db io' u (arg # rest) w') = w' \<and>
      (\<forall>m. message u = Some m \<longrightarrow>
           calls (link_cmd db io' u (arg # rest) w') = [ReplyText CannotLinkSelf] \<and>
           raised (link_cmd db io' u (arg # rest) w') = None))"
  by (simp add: get_partner_set_pair link_cmd_own_id state_reply reply_message)

theorem set_pair_self_unchecked_witness:
  "get_partner 100 (set_pair Saved 100 100 (initial Absent)) = Some 100 \<and>
   int_of_str unicode_14 (ascii ''100'') = Inr 100 \<and>
   state (link_cmd unicode_14 Saved
     \<lparr>effective_chat = \<lparr>chat_id = 100, chat_type = ascii ''private''\<rparr>,
      effective_message = \<lparr>message_id = 5, from_user = None\<rparr>,
      message = Some \<lparr>message_id = 5, from_user = None\<rparr>\<rparr>
     [ascii ''100''] (initial Absent)) = initial Absent \<and>
   calls (link_cmd unicode_14 Saved
     \<lparr>effective_chat = \<lparr>chat_id = 100, chat_type = ascii ''private''\<rparr>,
      effective_message = \<lparr>message_id = 5, from_user = None\<rparr>,
      message = Some \<lparr>message_id = 5, from_user = None\<rparr>\<rparr>
     [ascii ''100''] (initial Absent)) = [ReplyText CannotLinkSelf]"
proof -
  let ?u = "\<lparr>effective_chat = \<lparr>chat_id = 100, chat_type = ascii ''private''\<rparr>,
             effective_message = \<lparr>message_id = 5, from_user = None\<rparr>,
             message = Some \<lparr>message_id = 5, from_user = None\<rparr>\<rparr>"
  have a: "int_of_str unicode_14 (ascii ''100'') = Inr (chat_id (effective_chat ?u))"
    by (simp add: int_of_str_100)
  from a set_pair_self_unchecked [of 100 Saved "initial Absent" unicode_14 "ascii ''100''" ?u
      Saved "[]" "initial Absent"]
  show ?thesis
    by simp
qed

text \<open>
  C10: in a state where \<open>a\<close> is paired with \<open>b\<close> while \<open>b\<close> is paired with some
  \<open>c \<noteq> a\<close>, \<open>unlink a\<close> returns \<open>b\<close> and removes the entries of \<open>a\<close> and of \<open>b\<close>, so
  the pairing of \<open>b\<close> with \<open>c\<close> is lost. Every entry under a key other than \<open>str(a)\<close> and
  \<open>str(b)\<close> is as before; so is the entry of \<open>c\<close> when \<open>c \<noteq> b\<close>, which is left
  pointing at \<open>b\<close> if it did.
\<close>

theorem unlink_asymmetric:
  assumes "get_partner a w = Some b" and "get_partner b w = Some c" and "c \<noteq> a"
  shows "fst (unlink io a w) = Some b \<and>
         get_partner a (snd (unlink io a w)) = None \<and>
         get_partner b (snd (unlink io a w)) = None \<and>
         (\<forall>k. k \<noteq> py_str a \<and> k \<noteq> py_str b \<longrightarrow>
              dict_get (pairs (snd (unlink io a w))) k = dict_get (pairs w) k) \<and>
         (c \<noteq> b \<longrightarrow> get_partner c (snd (unlink io a w)) = get_partner c w)"
  using assms by (simp add: fst_unlink get_partner_unlink lookup_unlink)

theorem unlink_asymmetric_witness:
  "get_partner 1 (set_pair Saved 2 3 (set_pair Saved 1 2 (initial Absent))) = Some 2 \<and>
   get_partner 2 (set_pair Saved 2 3 (set_pair Saved 1 2 (initial Absent))) = Some 3 \<and>
   (3::int) \<noteq> 1 \<and>
   fst (unlink Saved 1 (set_pair Saved 2 3 (set_pair Saved 1 2 (initial Absent)))) = Some 2 \<and>
   get_partner 2 (snd (unlink Saved 1 (set_pair Saved 2 3 (set_pair Saved 1 2 (initial Absent))))) = None \<and>
   get_partner 3 (snd (unlink Saved 1 (set_pair Saved 2 3 (set_pair Saved 1 2 (initial Absent))))) = Some 2"
proof -
  let ?w = "set_pair Saved 2 3 (set_pair Saved 1 2 (initial Absent))"
  have a: "get_partner 1 ?w = Some 2" and b: "get_partner 2 ?w = Some 3"
    and c: "get_partner 3 ?w = Some 2"
    by (simp_all add: get_partner_set_pair)
  from unlink_asymmetric [OF a b, of Saved] a b c show ?thesis
    by simp
qed

section \<open>The handlers: the claims\<close>

text \<open>
  C5 (on a missing argument, an argument that is not a number, or the caller's own id,
  \<open>link_cmd\<close> answers the user with the matching text and leaves the store alone): the
  store part holds, the answer does not always come. \<open>link_cmd\<close> replies through
  \<open>update.message\<close>, which is \<open>None\<close> for an update that carries an edited message. For
  an edited \<open>/link\<close>, \<open>/link abc\<close> or \<open>/link 100\<close> from chat 100, the handler ends with
  \<open>AttributeError\<close> and makes no call at all; the state is the one given.
\<close>

theorem link_cmd_edited_message_raises:
  "link_cmd unicode_14 Saved
     \<lparr>effective_chat = \<lparr>chat_id = 100, chat_type = ascii ''private''\<rparr>,
      effective_message = \<lparr>message_id = 5, from_user = None\<rparr>,
      message = None\<rparr>
     [] (initial Absent) =
     \<lparr>state = initial Absent, calls = [], raised = Some AttributeError\<rparr> \<and>
   link_cmd unicode_14 Saved
     \<lparr>effective_chat = \<lparr>chat_id = 100, chat_type = ascii ''private''\<rparr>,
      effective_message = \<lparr>message_id = 5, from_user = None\<rparr>,
      message = None\<rparr>
     [ascii ''abc''] (initial Absent) =
     \<lparr>state = initial Absent, calls = [], raised = Some AttributeError\<rparr> \<and>
   link_cmd unicode_14 Saved
     \<lparr>effective_chat = \<lparr>chat_id = 100, chat_type = ascii ''private''\<rparr>,
      effective_message = \<lparr>message_id = 5, from_user = None\<rparr>,
      message = None\<rparr>
     [ascii ''100''] (initial Absent) =
     \<lparr>state = initial Absent, calls = [], raised = Some AttributeError\<rparr>"
  by (simp add: link_cmd_no_argument link_cmd_not_a_number [OF int_of_str_abc]
      link_cmd_own_id int_of_str_100 reply_no_message)

text \<open>
  C6, as amended: \<open>relay_messages\<close> makes no call for a sender with no partner, and none
  for a message that is not from a private chat or that a bot sent. For a message from a
  private chat, not sent by a bot, whose sender has a partner \<open>p\<close> other than 0, it makes
  exactly one call: the copy of that message to \<open>p\<close>.
\<close>

theorem relay_messages_routing:
  "(get_partner (chat_id (effective_chat u)) w = None \<longrightarrow> relay_messages u w = []) \<and>
   (chat_type (effective_chat u) \<noteq> ascii ''private'' \<or>
    from_bot (from_user (effective_message u)) \<longrightarrow>
      relay_messages u w = []) \<and>
   (chat_type (effective_chat u) = ascii ''private'' \<and>
    \<not> from_bot (from_user (effective_message u)) \<and>
    get_partner (chat_id (effective_chat u)) w = Some p \<and> p \<noteq> 0 \<longrightarrow>
      relay_messages u w =
        [CopyMessage p (chat_id (effective_chat u)) (message_id (effective_message u))])"
  by (simp add: relay_messages_def Let_def)

theorem relay_messages_routing_witness:
  "get_partner 7 (set_pair Saved 100 200 (initial Absent)) = None \<and>
   relay_messages \<lparr>effective_chat = \<lparr>chat_id = 7, chat_type = ascii ''private''\<rparr>,
                    effective_message = \<lparr>message_id = 5, from_user = None\<rparr>,
                    message = Some \<lparr>message_id = 5, from_user = None\<rparr>\<rparr>
     (set_pair Saved 100 200 (initial Absent)) = [] \<and>
   relay_messages \<lparr>effective_chat = \<lparr>chat_id = 200, chat_type = ascii ''group''\<rparr>,
                    effective_message = \<lparr>message_id = 5, from_user = None\<rparr>,
                    message = Some \<lparr>message_id = 5, from_user = None\<rparr>\<rparr>
     (set_pair Saved 100 200 (initial Absent)) = [] \<and>
   get_partner 200 (set_pair Saved 100 200 (initial Absent)) = Some 100 \<and>
   relay_messages \<lparr>effective_chat = \<lparr>chat_id = 200, chat_type = ascii ''private''\<rparr>,
                    effective_message = \<lparr>message_id = 5, from_user = Some \<lparr>is_bot = False\<rparr>\<rparr>,
                    message = Some \<lparr>message_id = 5, from_user = Some \<lparr>is_bot = False\<rparr>\<rparr>\<rparr>
     (set_pair Saved 100 200 (initial Absent)) = [CopyMessage 100 200 5]"
proof -
  let ?w = "set_pair Saved 100 200 (initial Absent)"
  let ?u1 = "\<lparr>effective_chat = \<lparr>chat_id = 7, chat_type = ascii ''private''\<rparr>,
              effective_message = \<lparr>message_id = 5, from_user = None\<rparr>,
              message = Some \<lparr>message_id = 5, from_user = None\<rparr>\<rparr>"
  let ?u2 = "\<lparr>effective_chat = \<lparr>chat_id = 200, chat_type = ascii ''group''\<rparr>,
              effective_message = \<lparr>message_id = 5, from_user = None\<rparr>,
              message = Some \<lparr>message_id = 5, from_user = None\<rparr>\<rparr>"
  let ?u3 = "\<lparr>effective_chat = \<lparr>chat_id = 200, chat_type = ascii ''private''\<rparr>,
              effective_message = \<lparr>message_id = 5, from_user = Some \<lparr>is_bot = False\<rparr>\<rparr>,
              message = Some \<lparr>message_id = 5, from_user = Some \<lparr>is_bot = False\<rparr>\<rparr>\<rparr>"
  have g: "ascii ''group'' \<noteq> ascii ''private''"
    by (simp add: ascii_def)
  have n: "get_partner 7 ?w = None"
    by (simp add: get_partner_set_pair get_partner_initial)
  have p: "get_partner 200 ?w = Some 100"
    by (simp add: get_partner_set_pair)
  from g n p relay_messages_routing [of ?u1 ?w 0] relay_messages_routing [of ?u2 ?w 0]
    relay_messages_routing [of ?u3 ?w 100]
  show ?thesis
    by simp
qed

text \<open>
  C6 as stated (no delivery if and only if the sender has no partner, for every inbound
  message) fails. With 100 and 200 paired, a message of 200 from a group chat is not
  delivered, nor is one a bot sent in the private chat, though 200 has a partner. And
  after \<open>set_pair 100 0\<close> (what \<open>/link 0\<close> does) the partner recorded for 100 is 0, which
  the test \<open>if not partner\<close> takes for no partner: nothing is delivered.
\<close>

theorem relay_messages_not_iff_partner:
  "get_partner 200 (set_pair Saved 100 200 (initial Absent)) = Some 100 \<and>
   relay_messages \<lparr>effective_chat = \<lparr>chat_id = 200, chat_type = ascii ''group''\<rparr>,
                    effective_message = \<lparr>message_id = 5, from_user = None\<rparr>,
                    message = Some \<lparr>message_id = 5, from_user = None\<rparr>\<rparr>
     (set_pair Saved 100 200 (initial Absent)) = [] \<and>
   relay_messages \<lparr>effective_chat = \<lparr>chat_id = 200, chat_type = ascii ''private''\<rparr>,
                    effective_message = \<lparr>message_id = 5, from_user = Some \<lparr>is_bot = True\<rparr>\<rparr>,
                    message = Some \<lparr>message_id = 5, from_user = Some \<lparr>is_bot = True\<rparr>\<rparr>\<rparr>
     (set_pair Saved 100 200 (initial Absent)) = [] \<and>
   get_partner 100 (set_pair Saved 100 0 (initial Absent)) = Some 0 \<and>
   relay_messages \<lparr>effective_chat = \<lparr>chat_id = 100, chat_type = ascii ''private''\<rparr>,
                    effective_message = \<lparr>message_id = 5, from_user = Some \<lparr>is_bot = False\<rparr>\<rparr>,
                    message = Some \<lparr>message_id = 5, from_user = Some \<lparr>is_bot = False\<rparr>\<rparr>\<rparr>
     (set_pair Saved 100 0 (initial Absent)) = []"
  by (simp add: relay_messages_def get_partner_set_pair ascii_def)

text \<open>
  C7, as amended: \<open>forward_all\<close> makes no call when \<open>SOURCE_CHAT_ID\<close> is set to an id
  other than 0 and the sender's chat is another one, and none when the sender's chat is
  the target. Otherwise, that is when \<open>SOURCE_CHAT_ID\<close> is unset, is 0 or is the sender's
  chat, and the sender's chat is not the target, it makes exactly one call: the copy of
  the message to the target.
\<close>

theorem forward_all_routing:
  "(SOURCE_CHAT_ID cfg = Some s \<and> s \<noteq> 0 \<and> chat_id (effective_chat u) \<noteq> s \<longrightarrow>
      forward_all cfg u = []) \<and>
   (chat_id (effective_chat u) = TARGET_CHAT_ID cfg \<longrightarrow> forward_all cfg u = []) \<and>
   ((SOURCE_CHAT_ID cfg = None \<or> SOURCE_CHAT_ID cfg = Some 0 \<or>
     SOURCE_CHAT_ID cfg = Some (chat_id (effective_chat u))) \<and>
    chat_id (effective_chat u) \<noteq> TARGET_CHAT_ID cfg \<longrightarrow>
      forward_all cfg u =
        [CopyMessage (TARGET_CHAT_ID cfg) (chat_id (effective_chat u))
           (message_id (effective_message u))])"
  by (cases "SOURCE_CHAT_ID cfg") (auto simp: forward_all_def Let_def)

theorem forward_all_routing_witness:
  "forward_all \<lparr>TARGET_CHAT_ID = 7, SOURCE_CHAT_ID = Some 5\<rparr>
     \<lparr>effective_chat = \<lparr>chat_id = 6, chat_type = ascii ''private''\<rparr>,
      effective_message = \<lparr>message_id = 9, from_user = None\<rparr>,
      message = Some \<lparr>message_id = 9, from_user = None\<rparr>\<rparr> = [] \<and>
   forward_all \<lparr>TARGET_CHAT_ID = 7, SOURCE_CHAT_ID = None\<rparr>
     \<lparr>effective_chat = \<lparr>chat_id = 7, chat_type = ascii ''private''\<rparr>,
      effective_message = \<lparr>message_id = 9, from_user = None\<rparr>,
      message = Some \<lparr>message_id = 9, from_user = None\<rparr>\<rparr> = [] \<and>
   forward_all \<lparr>TARGET_CHAT_ID = 7, SOURCE_CHAT_ID = Some 5\<rparr>
     \<lparr>effective_chat = \<lparr>chat_id = 5, chat_type = ascii ''private''\<rparr>,
      effective_message = \<lparr>message_id = 9, from_user = None\<rparr>,
      message = Some \<lparr>message_id = 9, from_user = None\<rparr>\<rparr> = [CopyMessage 7 5 9]"
  using
    forward_all_routing [of "\<lparr>TARGET_CHAT_ID = 7, SOURCE_CHAT_ID = Some 5\<rparr>" 5
      "\<lparr>effective_chat = \<lparr>chat_id = 6, chat_type = ascii ''private''\<rparr>,
        effective_message = \<lparr>message_id = 9, from_user = None\<rparr>,
        message = Some \<lparr>message_id = 9, from_user = None\<rparr>\<rparr>"]
    forward_all_routing [of "\<lparr>TARGET_CHAT_ID = 7, SOURCE_CHAT_ID = None\<rparr>" 0
      "\<lparr>effective_chat = \<lparr>chat_id = 7, chat_type = ascii ''private''\<rparr>,
        effective_message = \<lparr>message_id = 9, from_user = None\<rparr>,
        message = Some \<lparr>message_id = 9, from_user = None\<rparr>\<rparr>"]
    forward_all_routing [of "\<lparr>TARGET_CHAT_ID = 7, SOURCE_CHAT_ID = Some 5\<rparr>" 5
      "\<lparr>effective_chat = \<lparr>chat_id = 5, chat_type = ascii ''private''\<rparr>,
        effective_message = \<lparr>message_id = 9, from_user = None\<rparr>,
        message = Some \<lparr>message_id = 9, from_user = None\<rparr>\<rparr>"]
  by simp

text \<open>
  C7 as stated (nothing is delivered whenever a source restriction is configured and the
  sender's chat differs from it) fails for the restriction 0. The variable set to \<open>0\<close>
  gives \<open>SOURCE_CHAT_ID = 0\<close>, which the test \<open>if SOURCE_CHAT_ID and ...\<close> takes for no
  restriction: a message from chat 5 is copied to the target 7.
\<close>

theorem forward_all_zero_source:
  "read_source_chat_id unicode_14 (Some (ascii ''0'')) = Inr (Some 0) \<and>
   config_ok \<lparr>TARGET_CHAT_ID = 7, SOURCE_CHAT_ID = Some 0\<rparr> \<and>
   (5::int) \<noteq> 0 \<and>
   forward_all \<lparr>TARGET_CHAT_ID = 7, SOURCE_CHAT_ID = Some 0\<rparr>
     \<lparr>effective_chat = \<lparr>chat_id = 5, chat_type = ascii ''private''\<rparr>,
      effective_message = \<lparr>message_id = 9, from_user = None\<rparr>,
      message = Some \<lparr>message_id = 9, from_user = None\<rparr>\<rparr> = [CopyMessage 7 5 9]"
proof -
  have "ascii ''0'' \<noteq> []"
    by (simp add: ascii_def)
  then have "read_source_chat_id unicode_14 (Some (ascii ''0'')) = Inr (Some 0)"
    by (simp add: read_source_chat_id_def int_of_str_0)
  then show ?thesis
    by (simp add: forward_all_def config_ok_def)
qed

text \<open>
  C8: \<open>load_pairs\<close> fails soft. It is a total function of the state, so nothing is
  raised to the caller, and it leaves the file as it is. The dictionary is empty
  afterwards when the file is absent; when opening or parsing it raised; when the document
  is not an object; when some value of the object is one \<open>int()\<close> raises on; and, in
  general, whenever the body of the \<open>try\<close> raises. When the file holds the document
  \<open>{"100": 200, "200": 100}\<close>, afterwards the partner of 100 is 200 and the partner of
  200 is 100; and a file that \<open>save_pairs\<close> wrote from a dictionary is read back as that
  dictionary.
\<close>

theorem load_pairs_fails_soft:
  "(disk w = Absent \<longrightarrow> pairs (load_pairs db w) = []) \<and>
   (\<forall>e. disk w = Present (Inl e) \<longrightarrow> pairs (load_pairs db w) = []) \<and>
   (\<forall>j. disk w = Present (Inr j) \<and> (\<forall>kvs. j \<noteq> JObj kvs) \<longrightarrow> pairs (load_pairs db w) = []) \<and>
   (\<forall>kvs k v e. disk w = Present (Inr (JObj kvs)) \<and> (k, v) \<in> set kvs \<and> py_int db v = Inl e \<longrightarrow>
        pairs (load_pairs db w) = []) \<and>
   (\<forall>r e. disk w = Present r \<and> load_pairs_try db r = Inl e \<longrightarrow> pairs (load_pairs db w) = []) \<and>
   (disk w = Present (Inr (JObj [(ascii ''100'', JInt 200), (ascii ''200'', JInt 100)])) \<longrightarrow>
      get_partner 100 (load_pairs db w) = Some 200 \<and> get_partner 200 (load_pairs db w) = Some 100) \<and>
   (\<forall>d. disk w = Present (Inr (dump d)) \<and> distinct (map fst d) \<longrightarrow> pairs (load_pairs db w) = d) \<and>
   disk (load_pairs db w) = disk w"
proof (intro conjI allI impI)
  assume "disk w = Absent"
  then show "pairs (load_pairs db w) = []"
    by (simp add: load_pairs_def)
next
  fix e
  assume "disk w = Present (Inl e)"
  then show "pairs (load_pairs db w) = []"
    by (simp add: load_pairs_def load_pairs_try_def)
next
  fix j
  assume a: "disk w = Present (Inr j) \<and> (\<forall>kvs. j \<noteq> JObj kvs)"
  then have "items j = Inl AttributeError"
    by (cases j) simp_all
  with a show "pairs (load_pairs db w) = []"
    by (simp add: load_pairs_def load_pairs_try_def)
next
  fix kvs k v e
  assume a: "disk w = Present (Inr (JObj kvs)) \<and> (k, v) \<in> set kvs \<and> py_int db v = Inl e"
  then obtain e' where "comprehension db kvs [] = Inl e'"
    using comprehension_raises [of k v kvs db e "[]"] by blast
  with a show "pairs (load_pairs db w) = []"
    by (simp add: load_pairs_def load_pairs_try_def)
next
  fix r e
  assume "disk w = Present r \<and> load_pairs_try db r = Inl e"
  then show "pairs (load_pairs db w) = []"
    by (simp add: load_pairs_def)
next
  assume d: "disk w = Present (Inr (JObj [(ascii ''100'', JInt 200), (ascii ''200'', JInt 100)]))"
  have ne: "py_str 200 \<noteq> py_str 100"
    by (simp add: py_str_inj)
  have "load_pairs_try db (Inr (JObj [(py_str 100, JInt 200), (py_str 200, JInt 100)])) =
          Inr [(py_str 100, 200), (py_str 200, 100)]"
    using ne by (simp add: load_pairs_try_def dict_set_def)
  with d have p: "pairs (load_pairs db w) = [(py_str 100, 200), (py_str 200, 100)]"
    by (simp add: load_pairs_def py_str_100 py_str_200)
  show "get_partner 100 (load_pairs db w) = Some 200"
    by (simp add: get_partner_def dict_get_def p)
  show "get_partner 200 (load_pairs db w) = Some 100"
    using ne by (simp add: get_partner_def dict_get_def p)
next
  fix d
  assume "disk w = Present (Inr (dump d)) \<and> distinct (map fst d)"
  then show "pairs (load_pairs db w) = d"
    by (simp add: load_pairs_def load_pairs_try_dump)
next
  show "disk (load_pairs db w) = disk w"
    by (simp add: load_pairs_disk)
qed

theorem load_pairs_fails_soft_witness:
  "pairs (load_pairs unicode_14 \<lparr>pairs = [(ascii ''1'', 2)], disk = Absent, saves = 0\<rparr>) = [] \<and>
   pairs (load_pairs unicode_14
     \<lparr>pairs = [(ascii ''1'', 2)], disk = Present (Inl JSONDecodeError), saves = 0\<rparr>) = [] \<and>
   pairs (load_pairs unicode_14
     \<lparr>pairs = [(ascii ''1'', 2)], disk = Present (Inr (JArr [])), saves = 0\<rparr>) = [] \<and>
   py_int unicode_14 (JStr [28, 50, 48, 48]) = Inl ValueError \<and>
   pairs (load_pairs unicode_14
     \<lparr>pairs = [(ascii ''1'', 2)],
      disk = Present (Inr (JObj [(ascii ''100'', JStr [28, 50, 48, 48]), (ascii ''200'', JInt 100)])),
      saves = 0\<rparr>) = [] \<and>
   get_partner 100 (load_pairs unicode_14
     \<lparr>pairs = [(ascii ''1'', 2)],
      disk = Present (Inr (JObj [(ascii ''100'', JInt 200), (ascii ''200'', JInt 100)])),
      saves = 0\<rparr>) = Some 200 \<and>
   get_partner 200 (load_pairs unicode_14
     \<lparr>pairs = [(ascii ''1'', 2)],
      disk = Present (Inr (JObj [(ascii ''100'', JInt 200), (ascii ''200'', JInt 100)])),
      saves = 0\<rparr>) = Some 100 \<and>
   distinct (map fst [(ascii ''7'', 8::int), (ascii ''8'', 7)]) \<and>
   pairs (load_pairs unicode_14
     \<lparr>pairs = [(ascii ''1'', 2)],
      disk = Present (Inr (dump [(ascii ''7'', 8), (ascii ''8'', 7)])), saves = 0\<rparr>) =
     [(ascii ''7'', 8), (ascii ''8'', 7)]"
proof -
  let ?old = "[(ascii ''1'', 2::int)]"
  let ?bad = "JObj [(ascii ''100'', JStr [28, 50, 48, 48]), (ascii ''200'', JInt 100)]"
  let ?good = "JObj [(ascii ''100'', JInt 200), (ascii ''200'', JInt 100)]"
  let ?d = "[(ascii ''7'', 8::int), (ascii ''8'', 7)]"
  have a: "py_int unicode_14 (JStr [28, 50, 48, 48]) = Inl ValueError"
    by (simp add: int_of_str_separator)
  have c: "distinct (map fst ?d)"
    by (simp add: ascii_def)
  have 1: "pairs (load_pairs unicode_14 \<lparr>pairs = ?old, disk = Absent, saves = 0\<rparr>) = []"
    using load_pairs_fails_soft [of "\<lparr>pairs = ?old, disk = Absent, saves = 0\<rparr>" unicode_14]
    by simp
  have 2: "pairs (load_pairs unicode_14
      \<lparr>pairs = ?old, disk = Present (Inl JSONDecodeError), saves = 0\<rparr>) = []"
    using load_pairs_fails_soft
      [of "\<lparr>pairs = ?old, disk = Present (Inl JSONDecodeError), saves = 0\<rparr>" unicode_14]
    by simp
  have 3: "pairs (load_pairs unicode_14
      \<lparr>pairs = ?old, disk = Present (Inr (JArr [])), saves = 0\<rparr>) = []"
    using load_pairs_fails_soft
      [of "\<lparr>pairs = ?old, disk = Present (Inr (JArr [])), saves = 0\<rparr>" unicode_14]
    by simp
  have "\<forall>kvs k v e.
      disk \<lparr>pairs = ?old, disk = Present (Inr ?bad), saves = 0\<rparr> = Present (Inr (JObj kvs)) \<and>
      (k, v) \<in> set kvs \<and> py_int unicode_14 v = Inl e \<longrightarrow>
      pairs (load_pairs unicode_14 \<lparr>pairs = ?old, disk = Present (Inr ?bad), saves = 0\<rparr>) = []"
    using load_pairs_fails_soft
      [of "\<lparr>pairs = ?old, disk = Present (Inr ?bad), saves = 0\<rparr>" unicode_14]
    by blast
  then have 4: "pairs (load_pairs unicode_14
      \<lparr>pairs = ?old, disk = Present (Inr ?bad), saves = 0\<rparr>) = []"
    using a by fastforce
  have 5: "get_partner 100 (load_pairs unicode_14
        \<lparr>pairs = ?old, disk = Present (Inr ?good), saves = 0\<rparr>) = Some 200 \<and>
      get_partner 200 (load_pairs unicode_14
        \<lparr>pairs = ?old, disk = Present (Inr ?good), saves = 0\<rparr>) = Some 100"
    using load_pairs_fails_soft
      [of "\<lparr>pairs = ?old, disk = Present (Inr ?good), saves = 0\<rparr>" unicode_14]
    by simp
  have "\<forall>d. disk \<lparr>pairs = ?old, disk = Present (Inr (dump ?d)), saves = 0\<rparr> =
        Present (Inr (dump d)) \<and> distinct (map fst d) \<longrightarrow>
      pairs (load_pairs unicode_14
        \<lparr>pairs = ?old, disk = Present (Inr (dump ?d)), saves = 0\<rparr>) = d"
    using load_pairs_fails_soft
      [of "\<lparr>pairs = ?old, disk = Present (Inr (dump ?d)), saves = 0\<rparr>" unicode_14]
    by blast
  then have 6: "pairs (load_pairs unicode_14
      \<lparr>pairs = ?old, disk = Present (Inr (dump ?d)), saves = 0\<rparr>) = ?d"
    using c by fastforce
  from a c 1 2 3 4 5 6 show ?thesis
    by blast
qed

end
